theory Spec2Isabelle
  imports Complex_Main "HOL-Library.Sublist"
begin

section \<open>Values of the Python program\<close>

text \<open>
  A Python float is modelled by the number it denotes: a finite value as a rational
  (every double is one), and the three special values. The two zeros are one value here;
  they compare equal in Python.
\<close>

datatype pyfloat = Finite rat | PInf | NInf | NaN

text \<open>
  \<open>a > b\<close>, \<open>a >= b\<close> and \<open>a < b\<close> on floats, against a finite constant; false for NaN.
\<close>

fun float_gt :: "pyfloat \<Rightarrow> rat \<Rightarrow> bool" where
  "float_gt (Finite x) c = (c < x)"
| "float_gt PInf c = True"
| "float_gt NInf c = False"
| "float_gt NaN c = False"

fun float_ge :: "pyfloat \<Rightarrow> rat \<Rightarrow> bool" where
  "float_ge (Finite x) c = (c \<le> x)"
| "float_ge PInf c = True"
| "float_ge NInf c = False"
| "float_ge NaN c = False"

fun float_lt :: "pyfloat \<Rightarrow> rat \<Rightarrow> bool" where
  "float_lt (Finite x) c = (x < c)"
| "float_lt NInf c = True"
| "float_lt PInf c = False"
| "float_lt NaN c = False"

text \<open>
  What \<open>json.load\<close> and \<open>response.json()\<close> return: \<open>None\<close>, a bool, an int, a float,
  a str, a list, or a dict (keys in insertion order; a Python dict has no key twice).
\<close>

datatype json =
    JNull
  | JBool bool
  | JInt int
  | JFloat pyfloat
  | JStr string
  | JArr "json list"
  | JObj "(string \<times> json) list"

datatype py_error = TypeError | KeyError | AttributeError | ValueError

text \<open>
  An aware \<open>datetime\<close> in UTC, as the microseconds since the epoch. Aware datetimes are
  compared by their instant; \<open>.hour\<close> of a UTC datetime is the hour of the day.
\<close>

datatype datetime = Datetime (micros: int)

definition hour :: "datetime \<Rightarrow> int" where
  "hour d = (micros d div 3600000000) mod 24"

definition dt_less :: "datetime \<Rightarrow> datetime \<Rightarrow> bool" where
  "dt_less a b = (micros a < micros b)"

text \<open>The dict that \<open>parse_fire_data\<close> appends for a feature.\<close>

record fire_record =
  coordinates :: "json list"
  detection_time :: datetime
  incident_size :: pyfloat

text \<open>The dict that \<open>parse_wfs_data\<close> appends: a shapely geometry and its detection time.\<close>

record 'g wfs_record =
  polygon :: 'g
  wfs_time :: datetime

text \<open>The dict that \<open>compare_detection_times\<close> appends for a match.\<close>

record early_record =
  e_coordinates :: "json list"
  wfs_detection_time :: datetime
  official_time :: datetime
  e_incident_size :: pyfloat

section \<open>compare\_detection\_times\<close>

text \<open>
  The inner loop over \<open>wfs_records\<close> for one public record: the first polygon for which
  \<open>poly.contains(fire_point) and wfs_detection_time < official_time\<close> holds gives the
  appended dict, and \<open>break\<close> ends the loop. \<open>contains\<close> is shapely's predicate.
\<close>

fun scan_wfs :: "('g \<Rightarrow> 'p \<Rightarrow> bool) \<Rightarrow> fire_record \<Rightarrow> 'p \<Rightarrow> 'g wfs_record list
    \<Rightarrow> early_record option" where
  "scan_wfs contains record fire_point [] = None"
| "scan_wfs contains record fire_point (wfs # rest) =
     (if contains (polygon wfs) fire_point \<and> dt_less (wfs_time wfs) (detection_time record)
      then Some \<lparr> e_coordinates = coordinates record,
                  wfs_detection_time = wfs_time wfs,
                  official_time = detection_time record,
                  e_incident_size = incident_size record \<rparr>
      else scan_wfs contains record fire_point rest)"

text \<open>
  The outer loop. \<open>Point\<close> is shapely's constructor applied to the record's coordinate
  tuple; it raises on coordinates it cannot read, and nothing catches that here.
\<close>

fun compare_loop :: "(json list \<Rightarrow> py_error + 'p) \<Rightarrow> ('g \<Rightarrow> 'p \<Rightarrow> bool)
    \<Rightarrow> fire_record list \<Rightarrow> 'g wfs_record list \<Rightarrow> early_record list
    \<Rightarrow> py_error + early_record list" where
  "compare_loop Point contains [] wfs_records early_detected = Inr early_detected"
| "compare_loop Point contains (record # rest) wfs_records early_detected =
     (case Point (coordinates record) of
        Inl e \<Rightarrow> Inl e
      | Inr fire_point \<Rightarrow>
          (case scan_wfs contains record fire_point wfs_records of
             None \<Rightarrow> compare_loop Point contains rest wfs_records early_detected
           | Some m \<Rightarrow> compare_loop Point contains rest wfs_records (early_detected @ [m])))"

definition compare_detection_times :: "(json list \<Rightarrow> py_error + 'p) \<Rightarrow> ('g \<Rightarrow> 'p \<Rightarrow> bool)
    \<Rightarrow> fire_record list \<Rightarrow> 'g wfs_record list \<Rightarrow> py_error + early_record list" where
  "compare_detection_times Point contains public_records wfs_records =
     compare_loop Point contains public_records wfs_records []"

section \<open>Reading JSON values\<close>

text \<open>Truth value of a JSON value, as \<open>not geojson_data\<close> tests it.\<close>

fun truthy :: "json \<Rightarrow> bool" where
  "truthy JNull = False"
| "truthy (JBool b) = b"
| "truthy (JInt n) = (n \<noteq> 0)"
| "truthy (JFloat f) = (f \<noteq> Finite 0)"
| "truthy (JStr s) = (s \<noteq> [])"
| "truthy (JArr xs) = (xs \<noteq> [])"
| "truthy (JObj kv) = (kv \<noteq> [])"

text \<open>
  \<open>key in x\<close> for a string key: key membership in a dict, element membership in a list,
  substring test in a str, TypeError on anything else.
\<close>

fun py_in :: "string \<Rightarrow> json \<Rightarrow> py_error + bool" where
  "py_in k (JObj kv) = Inr (k \<in> fst ` set kv)"
| "py_in k (JArr xs) = Inr (JStr k \<in> set xs)"
| "py_in k (JStr s) = Inr (sublist k s)"
| "py_in k JNull = Inl TypeError"
| "py_in k (JBool b) = Inl TypeError"
| "py_in k (JInt n) = Inl TypeError"
| "py_in k (JFloat f) = Inl TypeError"

text \<open>\<open>x[key]\<close> for a string key: only a dict has one, and only for a key it holds.\<close>

fun subscript :: "json \<Rightarrow> string \<Rightarrow> py_error + json" where
  "subscript (JObj kv) k = (case map_of kv k of None \<Rightarrow> Inl KeyError | Some v \<Rightarrow> Inr v)"
| "subscript JNull k = Inl TypeError"
| "subscript (JBool b) k = Inl TypeError"
| "subscript (JInt n) k = Inl TypeError"
| "subscript (JFloat f) k = Inl TypeError"
| "subscript (JStr s) k = Inl TypeError"
| "subscript (JArr xs) k = Inl TypeError"

text \<open>\<open>x.get(key)\<close>: \<open>None\<close> for a key the dict lacks; only a dict has the method.\<close>

fun dict_get :: "json \<Rightarrow> string \<Rightarrow> py_error + json" where
  "dict_get (JObj kv) k = (case map_of kv k of None \<Rightarrow> Inr JNull | Some v \<Rightarrow> Inr v)"
| "dict_get JNull k = Inl AttributeError"
| "dict_get (JBool b) k = Inl AttributeError"
| "dict_get (JInt n) k = Inl AttributeError"
| "dict_get (JFloat f) k = Inl AttributeError"
| "dict_get (JStr s) k = Inl AttributeError"
| "dict_get (JArr xs) k = Inl AttributeError"

text \<open>
  The items that \<open>for x in v\<close> and \<open>tuple(v)\<close> go through: the elements of a list, the
  keys of a dict, the characters of a str; TypeError on anything else.
\<close>

fun iter :: "json \<Rightarrow> py_error + json list" where
  "iter (JArr xs) = Inr xs"
| "iter (JObj kv) = Inr (map (\<lambda>p. JStr (fst p)) kv)"
| "iter (JStr s) = Inr (map (\<lambda>c. JStr [c]) s)"
| "iter JNull = Inl TypeError"
| "iter (JBool b) = Inl TypeError"
| "iter (JInt n) = Inl TypeError"
| "iter (JFloat f) = Inl TypeError"

subsection \<open>float()\<close>

fun bit_length :: "nat \<Rightarrow> nat" where
  "bit_length n = (if n = 0 then 0 else Suc (bit_length (n div 2)))"

declare bit_length.simps [simp del]

text \<open>
  \<open>float(n)\<close> for an int: exact up to 53 bits, rounded to 53 significant bits (ties to
  even) beyond, OverflowError (here \<open>None\<close>) when the rounded value reaches \<open>2 ^ 1024\<close>.
\<close>

definition int_to_float :: "int \<Rightarrow> pyfloat option" where
  "int_to_float n =
     (let a = nat \<bar>n\<bar>; k = bit_length a in
      if k \<le> 53 then Some (Finite (of_int n))
      else
        let sh = k - 53;
            q = a div 2 ^ sh;
            r = a mod 2 ^ sh;
            q' = (if 2 ^ sh < 2 * r \<or> (2 * r = 2 ^ sh \<and> odd q) then q + 1 else q);
            m = q' * 2 ^ sh
        in if 2 ^ 1024 \<le> m then None
           else Some (Finite (of_int (sgn n * int m))))"

text \<open>
  \<open>float(v)\<close>; \<open>None\<close> stands for any exception. The parsing of a str is Python's own
  and is the parameter \<open>str_float\<close>.
\<close>

fun py_float :: "(string \<Rightarrow> pyfloat option) \<Rightarrow> json \<Rightarrow> pyfloat option" where
  "py_float str_float (JFloat f) = Some f"
| "py_float str_float (JInt n) = int_to_float n"
| "py_float str_float (JBool b) = Some (Finite (if b then 1 else 0))"
| "py_float str_float (JStr s) = str_float s"
| "py_float str_float JNull = None"
| "py_float str_float (JArr xs) = None"
| "py_float str_float (JObj kv) = None"

section \<open>parse\_fire\_data\<close>

text \<open>
  The body of the \<open>try\<close> for one feature; \<open>None\<close> is a \<open>continue\<close>, by one of the two
  \<open>is None\<close> tests or by the \<open>except Exception\<close>. The parameter \<open>utc_of_ms\<close> stands for
  \<open>datetime.fromtimestamp(discovery_ts / 1000, tz=timezone.utc)\<close>, \<open>None\<close> when the
  division or the conversion raises.
\<close>

definition parse_feature :: "(string \<Rightarrow> pyfloat option) \<Rightarrow> (json \<Rightarrow> datetime option)
    \<Rightarrow> json \<Rightarrow> fire_record option" where
  "parse_feature str_float utc_of_ms feature =
     (case subscript feature ''geometry'' of Inl e \<Rightarrow> None | Inr geometry \<Rightarrow>
     (case subscript geometry ''coordinates'' of Inl e \<Rightarrow> None | Inr coords \<Rightarrow>
     (case subscript feature ''properties'' of Inl e \<Rightarrow> None | Inr properties \<Rightarrow>
     (case dict_get properties ''FireDiscoveryDateTime'' of Inl e \<Rightarrow> None | Inr discovery_ts \<Rightarrow>
      if discovery_ts = JNull then None else
     (case utc_of_ms discovery_ts of None \<Rightarrow> None | Some dt \<Rightarrow>
     (case dict_get properties ''IncidentSize'' of Inl e \<Rightarrow> None | Inr raw_size \<Rightarrow>
      if raw_size = JNull then None else
     (case iter coords of Inl e \<Rightarrow> None | Inr tuple_coords \<Rightarrow>
     (case py_float str_float raw_size of None \<Rightarrow> None | Some fsize \<Rightarrow>
        Some \<lparr> coordinates = tuple_coords, detection_time = dt,
               incident_size = fsize \<rparr>))))))))"

text \<open>The \<open>for\<close> loop, appending to \<open>fire_records\<close>.\<close>

fun parse_loop :: "(string \<Rightarrow> pyfloat option) \<Rightarrow> (json \<Rightarrow> datetime option)
    \<Rightarrow> json list \<Rightarrow> fire_record list \<Rightarrow> fire_record list" where
  "parse_loop str_float utc_of_ms [] fire_records = fire_records"
| "parse_loop str_float utc_of_ms (feature # rest) fire_records =
     (case parse_feature str_float utc_of_ms feature of
        None \<Rightarrow> parse_loop str_float utc_of_ms rest fire_records
      | Some r \<Rightarrow> parse_loop str_float utc_of_ms rest (fire_records @ [r]))"

text \<open>
  The whole function. The guard and the start of the loop are outside the \<open>try\<close>, so an
  exception there leaves the function.
\<close>

definition parse_fire_data :: "(string \<Rightarrow> pyfloat option) \<Rightarrow> (json \<Rightarrow> datetime option)
    \<Rightarrow> json \<Rightarrow> py_error + fire_record list" where
  "parse_fire_data str_float utc_of_ms geojson_data =
     (if \<not> truthy geojson_data then Inr []
      else case py_in ''features'' geojson_data of
          Inl e \<Rightarrow> Inl e
        | Inr False \<Rightarrow> Inr []
        | Inr True \<Rightarrow>
            (case subscript geojson_data ''features'' of
               Inl e \<Rightarrow> Inl e
             | Inr fs \<Rightarrow>
                 (case iter fs of
                    Inl e \<Rightarrow> Inl e
                  | Inr features \<Rightarrow> Inr (parse_loop str_float utc_of_ms features []))))"

section \<open>analyze\_data\<close>

text \<open>
  \<open>Series.value_counts()\<close>: the distinct values with their counts, in the order in which
  each value is first seen, then sorted by count, largest first. pandas sorts downwards
  by reversing, sorting upwards and reversing again; the upward sort is taken stable.
\<close>

fun bump :: "int \<Rightarrow> (int \<times> nat) list \<Rightarrow> (int \<times> nat) list" where
  "bump v [] = [(v, 1)]"
| "bump v ((k, c) # t) = (if k = v then (k, Suc c) # t else (k, c) # bump v t)"

definition count_keys :: "int list \<Rightarrow> (int \<times> nat) list" where
  "count_keys vs = foldl (\<lambda>t v. bump v t) [] vs"

definition sort_values_desc :: "(int \<times> nat) list \<Rightarrow> (int \<times> nat) list" where
  "sort_values_desc kcs = rev (sort_key snd (rev kcs))"

definition value_counts :: "int list \<Rightarrow> (int \<times> nat) list" where
  "value_counts vs = sort_values_desc (count_keys vs)"

text \<open>
  \<open>Series.idxmax()\<close>: the label at the first position that holds the largest value;
  ValueError on an empty series.
\<close>

fun idxmax_from :: "int \<times> nat \<Rightarrow> (int \<times> nat) list \<Rightarrow> int" where
  "idxmax_from best [] = fst best"
| "idxmax_from best (e # es) =
     (if snd best < snd e then idxmax_from e es else idxmax_from best es)"

fun idxmax :: "(int \<times> nat) list \<Rightarrow> py_error + int" where
  "idxmax [] = Inl ValueError"
| "idxmax (e # es) = Inr (idxmax_from e es)"

text \<open>The dict that \<open>analyze_data\<close> returns; the data frame is its two columns.\<close>

record analysis =
  df_hour :: "int list"
  df_size :: "pyfloat list"
  most_common_hour :: "int option"
  large_fire_count :: nat
  correlation :: "pyfloat option"

text \<open>
  \<open>corr\<close> stands for \<open>Series.corr\<close> of pandas with its default method, Pearson's
  coefficient of the two columns, computed in floating point.
\<close>

definition analyze_data :: "(int list \<Rightarrow> pyfloat list \<Rightarrow> pyfloat) \<Rightarrow> fire_record list
    \<Rightarrow> py_error + analysis" where
  "analyze_data corr fire_records =
     (let hours = map (\<lambda>r. hour (detection_time r)) fire_records;
          sizes = map incident_size fire_records;
          large = sum_list (map (\<lambda>s. if float_gt s 1000 then 1 else 0) sizes);
          correlation = (if 1 < length fire_records then Some (corr hours sizes) else None)
      in if hours \<noteq> []
         then (case idxmax (value_counts hours) of
                 Inl e \<Rightarrow> Inl e
               | Inr h \<Rightarrow> Inr \<lparr> df_hour = hours, df_size = sizes, most_common_hour = Some h,
                               large_fire_count = large, correlation = correlation \<rparr>)
         else Inr \<lparr> df_hour = hours, df_size = sizes, most_common_hour = None,
                    large_fire_count = large, correlation = correlation \<rparr>)"

section \<open>Notions used to state the properties\<close>

text \<open>The dict appended for a public record and the polygon record it is matched with.\<close>

definition early_of :: "fire_record \<Rightarrow> 'g wfs_record \<Rightarrow> early_record" where
  "early_of record wfs =
     \<lparr> e_coordinates = coordinates record, wfs_detection_time = wfs_time wfs,
       official_time = detection_time record, e_incident_size = incident_size record \<rparr>"

text \<open>A polygon record qualifies for a point: it contains it and was detected earlier.\<close>

definition qualifies :: "('g \<Rightarrow> 'p \<Rightarrow> bool) \<Rightarrow> fire_record \<Rightarrow> 'p \<Rightarrow> 'g wfs_record \<Rightarrow> bool" where
  "qualifies contains record fire_point wfs =
     (contains (polygon wfs) fire_point \<and> dt_less (wfs_time wfs) (detection_time record))"

text \<open>The match of one public record: the first polygon record, in order, that qualifies.\<close>

definition match_for :: "(json list \<Rightarrow> py_error + 'p) \<Rightarrow> ('g \<Rightarrow> 'p \<Rightarrow> bool)
    \<Rightarrow> 'g wfs_record list \<Rightarrow> fire_record \<Rightarrow> early_record option" where
  "match_for Point contains wfs_records record =
     (case Point (coordinates record) of
        Inl e \<Rightarrow> None
      | Inr fire_point \<Rightarrow>
          map_option (early_of record) (find (qualifies contains record fire_point) wfs_records))"

subsection \<open>shapely's predicate\<close>

text \<open>
  A planar geometry is taken as the place it gives to every point: in its interior, on
  its boundary or in its exterior. shapely documents \<open>a.contains(b)\<close> as: no point of
  \<open>b\<close> lies in the exterior of \<open>a\<close>, and at least one point of the interior of \<open>b\<close> lies
  in the interior of \<open>a\<close>. For a point \<open>b\<close> that is: \<open>b\<close> lies in the interior of \<open>a\<close>.
\<close>

datatype location = Interior | Boundary | Exterior

type_synonym point = "rat \<times> rat"
type_synonym geometry = "point \<Rightarrow> location"

definition shapely_contains :: "geometry \<Rightarrow> point \<Rightarrow> bool" where
  "shapely_contains g p = (g p = Interior)"

text \<open>The polygon with the corners \<open>(x0, y0)\<close>, \<open>(x1, y0)\<close>, \<open>(x1, y1)\<close>, \<open>(x0, y1)\<close>.\<close>

definition box :: "rat \<Rightarrow> rat \<Rightarrow> rat \<Rightarrow> rat \<Rightarrow> geometry" where
  "box x0 y0 x1 y1 = (\<lambda>(x, y).
     if x0 < x \<and> x < x1 \<and> y0 < y \<and> y < y1 then Interior
     else if x0 \<le> x \<and> x \<le> x1 \<and> y0 \<le> y \<and> y \<le> y1 then Boundary
     else Exterior)"

text \<open>
  shapely's \<open>Point\<close> on a tuple of two finite numbers, the only tuples of the examples
  below. Other tuples are not covered by it (shapely accepts three numbers, and raises
  errors of other kinds); every general statement takes \<open>Point\<close> as a parameter instead.
\<close>

fun coord_value :: "json \<Rightarrow> rat option" where
  "coord_value (JInt n) = (case int_to_float n of Some (Finite x) \<Rightarrow> Some x | _ \<Rightarrow> None)"
| "coord_value (JFloat (Finite x)) = Some x"
| "coord_value _ = None"

fun point_xy :: "json list \<Rightarrow> py_error + point" where
  "point_xy [a, b] =
     (case (coord_value a, coord_value b) of
        (Some x, Some y) \<Rightarrow> Inr (x, y)
      | _ \<Rightarrow> Inl ValueError)"
| "point_xy _ = Inl ValueError"

subsection \<open>Records of the examples\<close>

text \<open>
  A public record at integer coordinates, and a polygon record covering
  \<open>[-121, -119] \<times> [38, 40]\<close>, each with its time in microseconds. The times used for
  the correlator are 2024-07-04 at 10:00, 12:00 and 14:00 UTC: 1720087200, 1720094400 and
  1720101600 seconds after the epoch. The times used for the statistics are 05:00 and
  09:00 UTC on the first day: 18000 and 32400 seconds.
\<close>

definition fire_at :: "int \<Rightarrow> int \<Rightarrow> int \<Rightarrow> rat \<Rightarrow> fire_record" where
  "fire_at x y t s = \<lparr> coordinates = [JInt x, JInt y], detection_time = Datetime t,
     incident_size = Finite s \<rparr>"

definition box_at :: "int \<Rightarrow> geometry wfs_record" where
  "box_at t = \<lparr> polygon = box (-121) 38 (-119) 40, wfs_time = Datetime t \<rparr>"

subsection \<open>Notions for the statistics\<close>

text \<open>The count that a table of value counts holds for a key, 0 for a key it lacks.\<close>

definition cnt :: "(int \<times> nat) list \<Rightarrow> int \<Rightarrow> nat" where
  "cnt t k = (case map_of t k of None \<Rightarrow> 0 | Some c \<Rightarrow> c)"

text \<open>
  \<open>Series.corr\<close> on the columns of the examples below, in each of which the sizes are
  all 50 or the hours are all 5: the deviations from the mean are exactly 0 and the
  coefficient is 0/0, NaN. Other columns are not covered by it (a column constant at a
  value whose mean is rounded need not give NaN); every general statement takes \<open>corr\<close>
  as a parameter instead.
\<close>

definition corr_nan :: "int list \<Rightarrow> pyfloat list \<Rightarrow> pyfloat" where
  "corr_nan hours sizes = NaN"

subsection \<open>Notions for the parser\<close>

text \<open>A feature whose \<open>properties\<close> dict lacks the key \<open>k\<close>.\<close>

definition missing :: "string \<Rightarrow> json \<Rightarrow> bool" where
  "missing k feature =
     (case subscript feature ''properties'' of
        Inr (JObj props) \<Rightarrow> map_of props k = None
      | _ \<Rightarrow> False)"

text \<open>
  A feature with all that the parser reads: a geometry whose coordinates can be iterated,
  and properties holding a discovery time and a size that are not \<open>None\<close> and convert.
\<close>

definition well_formed :: "(string \<Rightarrow> pyfloat option) \<Rightarrow> (json \<Rightarrow> datetime option)
    \<Rightarrow> json \<Rightarrow> bool" where
  "well_formed str_float utc_of_ms feature =
     (case (subscript feature ''geometry'', subscript feature ''properties'') of
        (Inr geometry, Inr (JObj props)) \<Rightarrow>
          (case subscript geometry ''coordinates'' of
             Inr coords \<Rightarrow> (case iter coords of Inr cs \<Rightarrow> True | Inl e \<Rightarrow> False)
           | Inl e \<Rightarrow> False) \<and>
          (case map_of props ''FireDiscoveryDateTime'' of
             Some t \<Rightarrow> t \<noteq> JNull \<and> utc_of_ms t \<noteq> None
           | None \<Rightarrow> False) \<and>
          (case map_of props ''IncidentSize'' of
             Some v \<Rightarrow> v \<noteq> JNull \<and> py_float str_float v \<noteq> None
           | None \<Rightarrow> False)
      | _ \<Rightarrow> False)"

text \<open>A JSON number that is not negative (a bool counts as 0 or 1, as in Python).\<close>

fun nonneg_number :: "json \<Rightarrow> bool" where
  "nonneg_number (JInt n) = (0 \<le> n)"
| "nonneg_number (JFloat x) = float_ge x 0"
| "nonneg_number (JBool b) = True"
| "nonneg_number _ = False"

text \<open>A JSON number that is negative.\<close>

fun negative_number :: "json \<Rightarrow> bool" where
  "negative_number (JInt n) = (n < 0)"
| "negative_number (JFloat x) = float_lt x 0"
| "negative_number _ = False"

text \<open>
  The positions, in the list of features, of the well formed ones, in increasing order:
  the record at place \<open>k\<close> of the result is to come from the feature at the \<open>k\<close>-th of
  these positions.
\<close>

definition accepted_positions :: "(string \<Rightarrow> pyfloat option) \<Rightarrow> (json \<Rightarrow> datetime option)
    \<Rightarrow> json list \<Rightarrow> nat list" where
  "accepted_positions str_float utc_of_ms features =
     filter (\<lambda>i. well_formed str_float utc_of_ms (features ! i)) [0..<length features]"

text \<open>
  \<open>datetime.fromtimestamp(n / 1000, tz=timezone.utc)\<close> for an int \<open>n\<close> from 0 to \<open>2 ^ 41\<close>
  (the year 2039): the quotient is within a quarter of a microsecond of \<open>n / 1000\<close>, so the
  rounding to microseconds gives the instant \<open>n\<close> milliseconds after the epoch. Other
  timestamps that the code converts (negative, float, bool, larger) are not covered by
  it. The examples below use no other timestamp, and no str as a size; every general
  statement takes the two conversions as parameters instead.
\<close>

definition utc_of_small_ms :: "json \<Rightarrow> datetime option" where
  "utc_of_small_ms v =
     (case v of JInt n \<Rightarrow> (if 0 \<le> n \<and> n < 2 ^ 41 then Some (Datetime (1000 * n)) else None)
      | _ \<Rightarrow> None)"

definition str_float_unused :: "string \<Rightarrow> pyfloat option" where
  "str_float_unused s = None"

text \<open>GeoJSON documents of the examples; 1720094400000 is 2024-07-04 12:00 UTC.\<close>

definition feature_with :: "json \<Rightarrow> (string \<times> json) list \<Rightarrow> json" where
  "feature_with coords props =
     JObj [(''type'', JStr ''Feature''),
           (''geometry'', JObj [(''type'', JStr ''Point''), (''coordinates'', coords)]),
           (''properties'', JObj props)]"

definition collection :: "json list \<Rightarrow> json" where
  "collection features =
     JObj [(''type'', JStr ''FeatureCollection''), (''features'', JArr features)]"

definition good_feature :: "int \<Rightarrow> json" where
  "good_feature n = feature_with (JArr [JInt (-120), JInt 39])
        [(''FireDiscoveryDateTime'', JInt 1720094400000), (''IncidentSize'', JInt n)]"

definition no_timestamp_feature :: json where
  "no_timestamp_feature =
     feature_with (JArr [JInt (-120), JInt 39]) [(''IncidentSize'', JInt 50)]"

definition rings :: json where
  "rings = JArr [JArr [JArr [JInt 0, JInt 0], JArr [JInt 1, JInt 0], JArr [JInt 1, JInt 1],
                       JArr [JInt 0, JInt 0]]]"

section \<open>Properties of compare\_detection\_times\<close>

lemma scan_wfs_find:
  "scan_wfs C r p ws = map_option (early_of r) (find (qualifies C r p) ws)"
  by (induction ws) (simp_all add: qualifies_def early_of_def)

lemma compare_loop_char:
  assumes "\<forall>r\<in>set rs. \<exists>p. P (coordinates r) = Inr p"
  shows "compare_loop P C rs ws acc = Inr (acc @ List.map_filter (match_for P C ws) rs)"
  using assms
proof (induction rs arbitrary: acc)
  case Nil
  then show ?case by simp
next
  case (Cons r rs)
  then obtain p where p: "P (coordinates r) = Inr p" by auto
  from Cons have IH:
    "\<And>acc. compare_loop P C rs ws acc = Inr (acc @ List.map_filter (match_for P C ws) rs)"
    by simp
  have m: "match_for P C ws r = scan_wfs C r p ws"
    by (simp add: match_for_def p scan_wfs_find)
  show ?case
    by (cases "scan_wfs C r p ws") (simp_all add: p IH m)
qed

lemma compare_loop_Inr_points:
  "compare_loop P C rs ws acc = Inr ms \<Longrightarrow> \<forall>r\<in>set rs. \<exists>p. P (coordinates r) = Inr p"
  by (induction rs arbitrary: acc) (auto split: sum.splits option.splits)

lemma map_filter_indices:
  "\<exists>is. length is = length (List.map_filter f xs) \<and> sorted_wrt (<) is \<and>
     (\<forall>k<length is. is ! k < length xs \<and> f (xs ! (is ! k)) = Some (List.map_filter f xs ! k))"
proof (induction xs)
  case Nil
  show ?case by simp
next
  case (Cons x xs)
  then obtain js where js: "length js = length (List.map_filter f xs)" "sorted_wrt (<) js"
    "\<forall>k<length js. js ! k < length xs \<and> f (xs ! (js ! k)) = Some (List.map_filter f xs ! k)"
    by blast
  show ?case
  proof (cases "f x")
    case None
    have "sorted_wrt (<) (map Suc js)" using js(2) by (simp add: sorted_wrt_map)
    with js None show ?thesis
      by (intro exI[of _ "map Suc js"]) simp
  next
    case (Some y)
    have s: "sorted_wrt (<) (0 # map Suc js)" using js(2) by (simp add: sorted_wrt_map)
    have "\<forall>k<length (0 # map Suc js). (0 # map Suc js) ! k < length (x # xs) \<and>
        f ((x # xs) ! ((0 # map Suc js) ! k)) = Some (List.map_filter f (x # xs) ! k)"
    proof (intro allI impI)
      fix k assume "k < length (0 # map Suc js)"
      then show "(0 # map Suc js) ! k < length (x # xs) \<and>
        f ((x # xs) ! ((0 # map Suc js) ! k)) = Some (List.map_filter f (x # xs) ! k)"
        using js(3) Some by (cases k) simp_all
    qed
    with s js(1) Some show ?thesis
      by (intro exI[of _ "0 # map Suc js"]) simp
  qed
qed

lemma match_for_fields:
  "match_for P C ws r = Some m \<Longrightarrow>
     e_coordinates m = coordinates r \<and> official_time m = detection_time r \<and>
     e_incident_size m = incident_size r \<and> dt_less (wfs_detection_time m) (official_time m)"
  by (auto simp: match_for_def early_of_def qualifies_def split: sum.splits
      dest: find_Some_iff[THEN iffD1])

lemma bit_length_small: "bit_length 120 \<le> 53" "bit_length 39 \<le> 53" "bit_length 121 \<le> 53"
  by code_simp+

lemma int_to_float_small:
  "int_to_float (-120) = Some (Finite (-120))" "int_to_float 39 = Some (Finite 39)"
  "int_to_float (-121) = Some (Finite (-121))"
  by (simp_all add: int_to_float_def Let_def bit_length_small)

text \<open>
  C1, as stated, fails. The point \<open>(-120, 39)\<close>, reported at 12:00, lies inside two
  polygons: the first listed was detected at 14:00, the second at 10:00. The first polygon
  containing the point is not earlier, and the point is matched all the same, with the
  second polygon.
\<close>

theorem first_containing_counterexample:
  "shapely_contains (polygon (box_at 1720101600000000)) (-120, 39) \<and>
   \<not> dt_less (wfs_time (box_at 1720101600000000))
       (detection_time (fire_at (-120) 39 1720094400000000 50)) \<and>
   compare_detection_times point_xy shapely_contains
     [fire_at (-120) 39 1720094400000000 50]
     [box_at 1720101600000000, box_at 1720087200000000] =
   Inr [\<lparr> e_coordinates = [JInt (-120), JInt 39],
          wfs_detection_time = Datetime 1720087200000000,
          official_time = Datetime 1720094400000000,
          e_incident_size = Finite 50 \<rparr>]"
  by (simp add: compare_detection_times_def fire_at_def box_at_def int_to_float_small
      shapely_contains_def box_def dt_less_def)

text \<open>
  C1, amended: for every list of public records whose coordinates make a point and every
  list of polygon records, the result holds, in the order of the public records, the match
  of each record with the first polygon, in the order of the polygon records, that both
  contains the point and was detected strictly earlier; a record with no such polygon
  adds nothing. A polygon that contains the point without being earlier is passed over.
\<close>

theorem first_qualifying_polygon:
  assumes "\<forall>r\<in>set rs. \<exists>p. Point (coordinates r) = Inr p"
  shows "compare_detection_times Point contains rs ws =
         Inr (List.map_filter (match_for Point contains ws) rs)"
  using compare_loop_char[OF assms, of contains ws "[]"]
  by (simp add: compare_detection_times_def)

text \<open>C1, amended, on the point and the two polygons of the counterexample.\<close>

theorem first_qualifying_polygon_witness:
  "point_xy (coordinates (fire_at (-120) 39 1720094400000000 50)) = Inr (-120, 39) \<and>
   compare_detection_times point_xy shapely_contains
     [fire_at (-120) 39 1720094400000000 50]
     [box_at 1720101600000000, box_at 1720087200000000] =
   Inr [early_of (fire_at (-120) 39 1720094400000000 50) (box_at 1720087200000000)]"
proof -
  have h: "\<forall>r\<in>set [fire_at (-120) 39 1720094400000000 50]. \<exists>p. point_xy (coordinates r) = Inr p"
    by (simp add: fire_at_def int_to_float_small)
  have "List.map_filter
          (match_for point_xy shapely_contains [box_at 1720101600000000, box_at 1720087200000000])
          [fire_at (-120) 39 1720094400000000 50] =
        [early_of (fire_at (-120) 39 1720094400000000 50) (box_at 1720087200000000)]"
    by (simp add: match_for_def qualifies_def fire_at_def box_at_def int_to_float_small
        shapely_contains_def box_def dt_less_def)
  moreover have "point_xy (coordinates (fire_at (-120) 39 1720094400000000 50)) = Inr (-120, 39)"
    by (simp add: fire_at_def int_to_float_small)
  ultimately show ?thesis
    using first_qualifying_polygon[OF h, of shapely_contains
      "[box_at 1720101600000000, box_at 1720087200000000]"]
    by simp
qed

text \<open>
  C2, as stated, fails. The point \<open>(-121, 39)\<close> lies on the left edge of the polygon
  covering \<open>[-121, -119] \<times> [38, 40]\<close>; the polygon was detected at 10:00 and the point
  reported at 12:00, and there is no match: \<open>contains\<close> holds for points of the interior
  only.
\<close>

theorem boundary_counterexample:
  "box (-121) 38 (-119) 40 (-121, 39) = Boundary \<and>
   dt_less (wfs_time (box_at 1720087200000000))
       (detection_time (fire_at (-121) 39 1720094400000000 50)) \<and>
   compare_detection_times point_xy shapely_contains
     [fire_at (-121) 39 1720094400000000 50] [box_at 1720087200000000] = Inr []"
  by (simp add: compare_detection_times_def fire_at_def box_at_def int_to_float_small
      shapely_contains_def box_def dt_less_def)

text \<open>
  C2, amended: a point that lies exactly on the boundary of a polygon is not contained in
  it for the correlator. The polygons on whose boundary the point lies play no part in
  its match, whatever their detection times: the result is the one obtained without them,
  and a point on the boundary of every polygon has no match.
\<close>

theorem boundary_not_contained:
  assumes "Point (coordinates r) = Inr p"
  shows "compare_detection_times Point shapely_contains [r] ws =
         compare_detection_times Point shapely_contains [r]
           (filter (\<lambda>w. polygon w p \<noteq> Boundary) ws) \<and>
         ((\<forall>w\<in>set ws. polygon w p = Boundary) \<longrightarrow>
           compare_detection_times Point shapely_contains [r] ws = Inr [])"
proof -
  have f: "scan_wfs shapely_contains r p (filter (\<lambda>w. polygon w p \<noteq> Boundary) ws) =
        scan_wfs shapely_contains r p ws"
    by (induction ws) (auto simp: shapely_contains_def)
  have g: "(\<forall>w\<in>set ws. polygon w p = Boundary) \<Longrightarrow> scan_wfs shapely_contains r p ws = None"
    by (induction ws) (auto simp: shapely_contains_def)
  show ?thesis using f g
    by (auto simp: compare_detection_times_def assms split: option.splits)
qed

text \<open>C2, amended, on the point and the polygon of the counterexample.\<close>

theorem boundary_not_contained_witness:
  "point_xy (coordinates (fire_at (-121) 39 1720094400000000 50)) = Inr (-121, 39) \<and>
   polygon (box_at 1720087200000000) (-121, 39) = Boundary \<and>
   compare_detection_times point_xy shapely_contains
     [fire_at (-121) 39 1720094400000000 50] [box_at 1720087200000000] = Inr []"
proof -
  have h: "point_xy (coordinates (fire_at (-121) 39 1720094400000000 50)) = Inr (-121, 39)"
    by (simp add: fire_at_def int_to_float_small)
  have b: "polygon (box_at 1720087200000000) (-121, 39) = Boundary"
    by (simp add: box_at_def box_def)
  have "(\<forall>w\<in>set [box_at 1720087200000000]. polygon w (-121, 39) = Boundary) \<longrightarrow>
      compare_detection_times point_xy shapely_contains
        [fire_at (-121) 39 1720094400000000 50] [box_at 1720087200000000] = Inr []"
    using boundary_not_contained[of point_xy "fire_at (-121) 39 1720094400000000 50"
      "(-121, 39)" "[box_at 1720087200000000]", OF h] by (rule conjunct2)
  with b have "compare_detection_times point_xy shapely_contains
        [fire_at (-121) 39 1720094400000000 50] [box_at 1720087200000000] = Inr []"
    by simp
  with h b show ?thesis by (intro conjI)
qed

text \<open>
  C3: a public record and a polygon record with equal detection times give no match,
  whether or not the polygon contains the point; and in every result the polygon's time
  of each match is strictly earlier than the official time, so that a polygon whose time
  equals the point's is never the matched one.
\<close>

theorem equal_times_no_match:
  "(Point (coordinates r) = Inr p \<and> wfs_time w = detection_time r \<longrightarrow>
      compare_detection_times Point contains [r] [w] = Inr []) \<and>
   (compare_detection_times Point contains rs ws = Inr ms \<longrightarrow>
      (\<forall>m\<in>set ms. micros (wfs_detection_time m) < micros (official_time m)))"
proof (intro conjI impI)
  assume "Point (coordinates r) = Inr p \<and> wfs_time w = detection_time r"
  then show "compare_detection_times Point contains [r] [w] = Inr []"
    by (simp add: compare_detection_times_def dt_less_def)
next
  assume a: "compare_detection_times Point contains rs ws = Inr ms"
  then have pts: "\<forall>r\<in>set rs. \<exists>p. Point (coordinates r) = Inr p"
    unfolding compare_detection_times_def by (rule compare_loop_Inr_points)
  have "ms = List.map_filter (match_for Point contains ws) rs"
    using compare_loop_char[OF pts, of contains ws "[]"] a
    by (simp add: compare_detection_times_def)
  then show "\<forall>m\<in>set ms. micros (wfs_detection_time m) < micros (official_time m)"
    using match_for_fields[of Point contains ws]
    by (fastforce simp: List.map_filter_def dt_less_def)
qed

text \<open>
  C3 on the point \<open>(-120, 39)\<close> reported at 12:00, inside a polygon detected at 12:00 (no
  match) and inside a polygon detected at 10:00 (a match).
\<close>

theorem equal_times_no_match_witness:
  "point_xy (coordinates (fire_at (-120) 39 1720094400000000 50)) = Inr (-120, 39) \<and>
   wfs_time (box_at 1720094400000000) = detection_time (fire_at (-120) 39 1720094400000000 50) \<and>
   shapely_contains (polygon (box_at 1720094400000000)) (-120, 39) \<and>
   compare_detection_times point_xy shapely_contains
     [fire_at (-120) 39 1720094400000000 50] [box_at 1720094400000000] = Inr [] \<and>
   compare_detection_times point_xy shapely_contains
     [fire_at (-120) 39 1720094400000000 50] [box_at 1720087200000000] =
     Inr [early_of (fire_at (-120) 39 1720094400000000 50) (box_at 1720087200000000)] \<and>
   micros (wfs_detection_time
       (early_of (fire_at (-120) 39 1720094400000000 50) (box_at 1720087200000000))) <
   micros (official_time
       (early_of (fire_at (-120) 39 1720094400000000 50) (box_at 1720087200000000)))"
proof -
  let ?r = "fire_at (-120) 39 1720094400000000 50"
  let ?m = "early_of ?r (box_at 1720087200000000)"
  have h: "point_xy (coordinates ?r) = Inr (-120, 39)"
    by (simp add: fire_at_def int_to_float_small)
  have t: "wfs_time (box_at 1720094400000000) = detection_time ?r"
    by (simp add: fire_at_def box_at_def)
  have c: "shapely_contains (polygon (box_at 1720094400000000)) (-120, 39)"
    by (simp add: box_at_def box_def shapely_contains_def)
  have e: "compare_detection_times point_xy shapely_contains [?r] [box_at 1720087200000000] =
      Inr [?m]"
    by (simp add: compare_detection_times_def fire_at_def box_at_def int_to_float_small
        shapely_contains_def box_def dt_less_def early_of_def)
  from equal_times_no_match[of point_xy ?r "(-120, 39)" "box_at 1720094400000000"
      shapely_contains "[?r]" "[box_at 1720087200000000]" "[?m]"] h t c e
  show ?thesis by simp
qed

text \<open>
  C9: when the coordinates of every public record make a point, the function returns a
  list of matches, and the matches come from public records at strictly increasing
  positions: the order of the public records is kept and no record gives two matches.
\<close>

theorem order_preserved:
  assumes "\<forall>r\<in>set rs. \<exists>p. Point (coordinates r) = Inr p"
  shows "\<exists>ms is. compare_detection_times Point contains rs ws = Inr ms \<and>
           length is = length ms \<and> sorted_wrt (<) is \<and>
           (\<forall>k<length ms. is ! k < length rs \<and>
              e_coordinates (ms ! k) = coordinates (rs ! (is ! k)) \<and>
              official_time (ms ! k) = detection_time (rs ! (is ! k)) \<and>
              e_incident_size (ms ! k) = incident_size (rs ! (is ! k)))"
proof -
  let ?f = "match_for Point contains ws"
  have c: "compare_detection_times Point contains rs ws = Inr (List.map_filter ?f rs)"
    using compare_loop_char[OF assms, of contains ws "[]"]
    by (simp add: compare_detection_times_def)
  obtain js where js: "length js = length (List.map_filter ?f rs)" "sorted_wrt (<) js"
    "\<forall>k<length js. js ! k < length rs \<and> ?f (rs ! (js ! k)) = Some (List.map_filter ?f rs ! k)"
    using map_filter_indices[of ?f rs] by blast
  have "\<forall>k<length (List.map_filter ?f rs). js ! k < length rs \<and>
              e_coordinates (List.map_filter ?f rs ! k) = coordinates (rs ! (js ! k)) \<and>
              official_time (List.map_filter ?f rs ! k) = detection_time (rs ! (js ! k)) \<and>
              e_incident_size (List.map_filter ?f rs ! k) = incident_size (rs ! (js ! k))"
    using js(1) js(3) match_for_fields[of Point contains ws] by metis
  with c js(1,2) show ?thesis by blast
qed

text \<open>C9 on three public records, the second outside the polygon.\<close>

theorem order_preserved_witness:
  "point_xy (coordinates (fire_at (-120) 39 1720094400000000 50)) = Inr (-120, 39) \<and>
   point_xy (coordinates (fire_at 0 0 1720094400000000 10)) = Inr (0, 0) \<and>
   point_xy (coordinates (fire_at (-120) 39 1720101600000000 70)) = Inr (-120, 39) \<and>
   compare_detection_times point_xy shapely_contains
     [fire_at (-120) 39 1720094400000000 50, fire_at 0 0 1720094400000000 10,
      fire_at (-120) 39 1720101600000000 70]
     [box_at 1720087200000000] =
     Inr [early_of (fire_at (-120) 39 1720094400000000 50) (box_at 1720087200000000),
          early_of (fire_at (-120) 39 1720101600000000 70) (box_at 1720087200000000)] \<and>
   (\<exists>ms is. compare_detection_times point_xy shapely_contains
       [fire_at (-120) 39 1720094400000000 50, fire_at 0 0 1720094400000000 10,
        fire_at (-120) 39 1720101600000000 70]
       [box_at 1720087200000000] = Inr ms \<and>
     length is = length ms \<and> sorted_wrt (<) is \<and>
     (\<forall>k<length ms. is ! k < length [fire_at (-120) 39 1720094400000000 50,
          fire_at 0 0 1720094400000000 10, fire_at (-120) 39 1720101600000000 70] \<and>
        e_coordinates (ms ! k) = coordinates ([fire_at (-120) 39 1720094400000000 50,
          fire_at 0 0 1720094400000000 10, fire_at (-120) 39 1720101600000000 70] ! (is ! k)) \<and>
        official_time (ms ! k) = detection_time ([fire_at (-120) 39 1720094400000000 50,
          fire_at 0 0 1720094400000000 10, fire_at (-120) 39 1720101600000000 70] ! (is ! k)) \<and>
        e_incident_size (ms ! k) = incident_size ([fire_at (-120) 39 1720094400000000 50,
          fire_at 0 0 1720094400000000 10, fire_at (-120) 39 1720101600000000 70] ! (is ! k))))"
proof -
  let ?rs = "[fire_at (-120) 39 1720094400000000 50, fire_at 0 0 1720094400000000 10,
      fire_at (-120) 39 1720101600000000 70]"
  have z: "int_to_float 0 = Some (Finite 0)"
    by (simp add: int_to_float_def Let_def bit_length.simps)
  have h1: "point_xy (coordinates (fire_at (-120) 39 1720094400000000 50)) = Inr (-120, 39)"
    and h2: "point_xy (coordinates (fire_at 0 0 1720094400000000 10)) = Inr (0, 0)"
    and h3: "point_xy (coordinates (fire_at (-120) 39 1720101600000000 70)) = Inr (-120, 39)"
    by (simp_all add: fire_at_def int_to_float_small z)
  have h: "\<forall>r\<in>set ?rs. \<exists>p. point_xy (coordinates r) = Inr p"
    using h1 h2 h3 by simp
  have e: "compare_detection_times point_xy shapely_contains ?rs [box_at 1720087200000000] =
     Inr [early_of (fire_at (-120) 39 1720094400000000 50) (box_at 1720087200000000),
          early_of (fire_at (-120) 39 1720101600000000 70) (box_at 1720087200000000)]"
    by (simp add: compare_detection_times_def fire_at_def box_at_def int_to_float_small z
        shapely_contains_def box_def dt_less_def early_of_def)
  from order_preserved[OF h, of shapely_contains "[box_at 1720087200000000]"] h1 h2 h3 e
  show ?thesis by blast
qed

section \<open>Properties of analyze\_data\<close>

lemma bump_keys: "fst ` set (bump v t) = insert v (fst ` set t)"
  by (induction v t rule: bump.induct) auto

lemma bump_distinct: "distinct (map fst t) \<Longrightarrow> distinct (map fst (bump v t))"
proof (induction t)
  case Nil then show ?case by simp
next
  case (Cons a t)
  obtain k c where a: "a = (k, c)" by (cases a)
  from Cons show ?case using bump_keys[of v t] by (auto simp: a)
qed

lemma bump_cnt: "cnt (bump v t) k = cnt t k + (if k = v then 1 else 0)"
  by (induction v t rule: bump.induct) (auto simp: cnt_def)

lemma foldl_bump:
  "distinct (map fst t) \<Longrightarrow>
   distinct (map fst (foldl (\<lambda>t v. bump v t) t vs)) \<and>
   fst ` set (foldl (\<lambda>t v. bump v t) t vs) = fst ` set t \<union> set vs \<and>
   (\<forall>k. cnt (foldl (\<lambda>t v. bump v t) t vs) k = cnt t k + count_list vs k)"
proof (induction vs arbitrary: t)
  case Nil then show ?case by simp
next
  case (Cons v vs)
  from Cons.IH[OF bump_distinct[OF Cons.prems, of v]]
  show ?case by (auto simp: bump_keys bump_cnt)
qed

lemma count_keys_entries:
  "distinct (map fst (count_keys vs))" "fst ` set (count_keys vs) = set vs"
  "(k, c) \<in> set (count_keys vs) \<Longrightarrow> c = count_list vs k"
proof -
  have f: "distinct (map fst (count_keys vs)) \<and> fst ` set (count_keys vs) = set vs \<and>
   (\<forall>k. cnt (count_keys vs) k = cnt [] k + count_list vs k)"
    using foldl_bump[of "[]" vs] by (simp add: count_keys_def)
  show d: "distinct (map fst (count_keys vs))" using f by simp
  show "fst ` set (count_keys vs) = set vs" using f by simp
  assume "(k, c) \<in> set (count_keys vs)"
  then have "map_of (count_keys vs) k = Some c" using d by simp
  then have "cnt (count_keys vs) k = c" by (simp add: cnt_def)
  with f show "c = count_list vs k" by (simp add: cnt_def)
qed

lemma set_value_counts: "set (value_counts vs) = set (count_keys vs)"
  by (simp add: value_counts_def sort_values_desc_def)

lemma idxmax_from_max:
  "\<exists>e\<in>set (best # es). idxmax_from best es = fst e \<and> (\<forall>e'\<in>set (best # es). snd e' \<le> snd e)"
proof (induction es arbitrary: best)
  case Nil then show ?case by simp
next
  case (Cons x es)
  show ?case
  proof (cases "snd best < snd x")
    case True
    from Cons[of x] obtain e where "e \<in> set (x # es)" "idxmax_from x es = fst e"
      "\<forall>e'\<in>set (x # es). snd e' \<le> snd e" by blast
    with True show ?thesis by (intro bexI[of _ e]) auto
  next
    case False
    from Cons[of best] obtain e where "e \<in> set (best # es)" "idxmax_from best es = fst e"
      "\<forall>e'\<in>set (best # es). snd e' \<le> snd e" by blast
    with False show ?thesis by (intro bexI[of _ e]) auto
  qed
qed

lemma idxmax_value_counts:
  assumes "vs \<noteq> []"
  shows "\<exists>h. idxmax (value_counts vs) = Inr h \<and> h \<in> set vs \<and>
           (\<forall>h'. count_list vs h' \<le> count_list vs h)"
proof -
  have ne: "value_counts vs \<noteq> []"
    using assms count_keys_entries(2)[of vs] set_value_counts[of vs] by auto
  then obtain b es where be: "value_counts vs = b # es" by (cases "value_counts vs") auto
  from idxmax_from_max[of b es] obtain e where e: "e \<in> set (b # es)"
    "idxmax_from b es = fst e" "\<forall>e'\<in>set (b # es). snd e' \<le> snd e" by blast
  have mem: "e \<in> set (count_keys vs)"
    using e(1) unfolding be[symmetric] set_value_counts .
  have ce: "snd e = count_list vs (fst e)"
    using count_keys_entries(3)[of "fst e" "snd e" vs] mem by simp
  have "fst e \<in> set vs" using mem count_keys_entries(2)[of vs] by force
  moreover have "count_list vs h' \<le> count_list vs (fst e)" for h'
  proof (cases "h' \<in> set vs")
    case True
    then obtain c where c: "(h', c) \<in> set (count_keys vs)"
      using count_keys_entries(2)[of vs] by force
    then have "c = count_list vs h'" by (rule count_keys_entries(3))
    moreover have "(h', c) \<in> set (b # es)"
      using c unfolding be[symmetric] set_value_counts .
    then have "c \<le> snd e" using e(3) by fastforce
    ultimately show ?thesis using ce by simp
  next
    case False
    then show ?thesis by (simp add: count_list_0_iff)
  qed
  ultimately show ?thesis using be e(2) by simp
qed


lemma sum_flags: "sum_list (map (\<lambda>s. if P s then 1 else 0) xs) = length (filter P xs)"
  by (induction xs) simp_all


lemma analyze_data_Inr:
  "\<exists>a. analyze_data corr rs = Inr a \<and>
     df_hour a = map (\<lambda>r. hour (detection_time r)) rs \<and>
     df_size a = map incident_size rs \<and>
     large_fire_count a = length (filter (\<lambda>r. float_gt (incident_size r) 1000) rs) \<and>
     correlation a = (if 1 < length rs
        then Some (corr (map (\<lambda>r. hour (detection_time r)) rs) (map incident_size rs))
        else None) \<and>
     (rs = [] \<longrightarrow> most_common_hour a = None) \<and>
     (rs \<noteq> [] \<longrightarrow> Inr (the (most_common_hour a)) =
         idxmax (value_counts (map (\<lambda>r. hour (detection_time r)) rs)) \<and> most_common_hour a \<noteq> None)"
proof (cases "rs = []")
  case True
  then show ?thesis by (simp add: analyze_data_def)
next
  case False
  then have ne: "map (\<lambda>r. hour (detection_time r)) rs \<noteq> []" by simp
  from idxmax_value_counts[OF ne] obtain h where
    h: "idxmax (value_counts (map (\<lambda>r. hour (detection_time r)) rs)) = Inr h" by blast
  have s: "sum_list (map (\<lambda>s. if float_gt s 1000 then 1 else 0) (map incident_size rs)) =
      length (filter (\<lambda>r. float_gt (incident_size r) 1000) rs)"
    using sum_flags[of "\<lambda>r. float_gt (incident_size r) 1000" rs] by (simp add: comp_def)
  show ?thesis using False h s by (simp add: analyze_data_def Let_def)
qed












lemma int_to_float_zero: "int_to_float 0 = Some (Finite 0)"
  by (simp add: int_to_float_def Let_def bit_length.simps)


lemma vc559: "idxmax (value_counts [5, 5, 9]) = Inr 5"
  by (simp add: value_counts_def count_keys_def sort_values_desc_def)




text \<open>
  C7: for every list of public records the function returns, and the count of large fires
  is the number of records whose size is strictly above 1000; for the sizes 10, 2000 and
  300 (detected at 05:00, 05:00 and 09:00) the count is 1 and the most common hour is 5.
\<close>

theorem large_fire_count_counts:
  "(\<exists>a. analyze_data corr rs = Inr a \<and>
        large_fire_count a = card {i. i < length rs \<and> float_gt (incident_size (rs ! i)) 1000}) \<and>
   (\<exists>a. analyze_data corr
        [fire_at 0 0 18000000000 10, fire_at 0 0 18000000000 2000, fire_at 0 0 32400000000 300]
          = Inr a \<and>
        df_hour a = [5, 5, 9] \<and> df_size a = [Finite 10, Finite 2000, Finite 300] \<and>
        large_fire_count a = 1 \<and> most_common_hour a = Some 5)"
proof
  from analyze_data_Inr[of corr rs] obtain a where
    "analyze_data corr rs = Inr a"
    "large_fire_count a = length (filter (\<lambda>r. float_gt (incident_size r) 1000) rs)" by blast
  then show "\<exists>a. analyze_data corr rs = Inr a \<and>
        large_fire_count a = card {i. i < length rs \<and> float_gt (incident_size (rs ! i)) 1000}"
    by (simp add: length_filter_conv_card)
next
  show "\<exists>a. analyze_data corr
        [fire_at 0 0 18000000000 10, fire_at 0 0 18000000000 2000, fire_at 0 0 32400000000 300]
          = Inr a \<and>
        df_hour a = [5, 5, 9] \<and> df_size a = [Finite 10, Finite 2000, Finite 300] \<and>
        large_fire_count a = 1 \<and> most_common_hour a = Some 5"
    by (simp add: analyze_data_def Let_def fire_at_def hour_def vc559)
qed

text \<open>C7 on three records of sizes 10, 2000 and 300.\<close>

theorem large_fire_count_counts_witness:
  "analyze_data corr_nan
     [fire_at 0 0 18000000000 10, fire_at 0 0 18000000000 2000, fire_at 0 0 18000000000 300] =
     Inr \<lparr> df_hour = [5, 5, 5], df_size = [Finite 10, Finite 2000, Finite 300],
           most_common_hour = Some 5, large_fire_count = 1, correlation = Some NaN \<rparr> \<and>
   card {i. i < length [fire_at 0 0 18000000000 10, fire_at 0 0 18000000000 2000,
                        fire_at 0 0 18000000000 300] \<and>
            float_gt (incident_size ([fire_at 0 0 18000000000 10, fire_at 0 0 18000000000 2000,
                        fire_at 0 0 18000000000 300] ! i)) 1000} = 1"
proof -
  let ?rs = "[fire_at 0 0 18000000000 10, fire_at 0 0 18000000000 2000,
              fire_at 0 0 18000000000 300]"
  have v: "idxmax (value_counts [5, 5, 5]) = Inr 5"
    by (simp add: value_counts_def count_keys_def sort_values_desc_def)
  have e: "analyze_data corr_nan ?rs =
     Inr \<lparr> df_hour = [5, 5, 5], df_size = [Finite 10, Finite 2000, Finite 300],
           most_common_hour = Some 5, large_fire_count = 1, correlation = Some NaN \<rparr>"
    by (simp add: analyze_data_def Let_def fire_at_def hour_def v corr_nan_def)
  from large_fire_count_counts[of corr_nan ?rs] e show ?thesis by auto
qed

text \<open>
  C8: for every list of public records the function returns; the correlation is absent
  (\<open>None\<close>, not a number) exactly when the list has fewer than two records, and with two
  records or more it is the value of \<open>Series.corr\<close>, Pearson's coefficient, on the column
  of hours and the column of sizes.
\<close>

theorem correlation_absent_iff:
  "\<exists>a. analyze_data corr rs = Inr a \<and>
     (correlation a = None \<longleftrightarrow> length rs < 2) \<and>
     (2 \<le> length rs \<longrightarrow>
        correlation a = Some (corr (map (\<lambda>r. hour (detection_time r)) rs) (map incident_size rs)))"
proof -
  from analyze_data_Inr[of corr rs] obtain a where
    "analyze_data corr rs = Inr a"
    "correlation a = (if 1 < length rs
        then Some (corr (map (\<lambda>r. hour (detection_time r)) rs) (map incident_size rs))
        else None)" by blast
  then show ?thesis by (intro exI[of _ a]) auto
qed

text \<open>C8 on no record, on one record and on two records.\<close>

theorem correlation_absent_iff_witness:
  "analyze_data corr_nan [] =
     Inr \<lparr> df_hour = [], df_size = [], most_common_hour = None, large_fire_count = 0,
           correlation = None \<rparr> \<and>
   analyze_data corr_nan [fire_at 0 0 18000000000 50] =
     Inr \<lparr> df_hour = [5], df_size = [Finite 50], most_common_hour = Some 5,
           large_fire_count = 0, correlation = None \<rparr> \<and>
   (2 :: nat) \<le> length [fire_at 0 0 18000000000 50, fire_at 0 0 32400000000 50] \<and>
   (\<exists>a. analyze_data corr_nan [fire_at 0 0 18000000000 50, fire_at 0 0 32400000000 50] = Inr a \<and>
        correlation a = Some (corr_nan [5, 9] [Finite 50, Finite 50]))"
proof -
  have v: "idxmax (value_counts [5]) = Inr 5"
    by (simp add: value_counts_def count_keys_def sort_values_desc_def)
  have e0: "analyze_data corr_nan [] =
     Inr \<lparr> df_hour = [], df_size = [], most_common_hour = None, large_fire_count = 0,
           correlation = None \<rparr>"
    by (simp add: analyze_data_def)
  have e1: "analyze_data corr_nan [fire_at 0 0 18000000000 50] =
     Inr \<lparr> df_hour = [5], df_size = [Finite 50], most_common_hour = Some 5,
           large_fire_count = 0, correlation = None \<rparr>"
    by (simp add: analyze_data_def Let_def fire_at_def hour_def v)
  have "\<exists>a. analyze_data corr_nan [fire_at 0 0 18000000000 50, fire_at 0 0 32400000000 50] = Inr a \<and>
        correlation a = Some (corr_nan [5, 9] [Finite 50, Finite 50])"
    using correlation_absent_iff[of corr_nan
        "[fire_at 0 0 18000000000 50, fire_at 0 0 32400000000 50]"]
    by (auto simp: fire_at_def hour_def)
  with e0 e1 show ?thesis by simp
qed

section \<open>Properties of parse\_fire\_data\<close>

lemma parse_loop_char:
  "parse_loop sf ts fs acc = acc @ List.map_filter (parse_feature sf ts) fs"
  by (induction fs arbitrary: acc) (auto split: option.splits)

lemma parse_collection:
  assumes "map_of kv ''features'' = Some (JArr fs)"
  shows "parse_fire_data sf ts (JObj kv) = Inr (List.map_filter (parse_feature sf ts) fs)"
proof -
  have "kv \<noteq> []" using assms by auto
  moreover have "''features'' \<in> fst ` set kv"
    using assms by (metis map_of_eq_None_iff option.distinct(1))
  ultimately show ?thesis
    using assms by (simp add: parse_fire_data_def parse_loop_char)
qed

lemma missing_skipped:
  "missing ''FireDiscoveryDateTime'' f \<or> missing ''IncidentSize'' f \<Longrightarrow> parse_feature sf ts f = None"
  by (auto simp: missing_def parse_feature_def split: sum.splits json.splits option.splits)

lemma well_formed_iff: "well_formed sf ts f \<longleftrightarrow> parse_feature sf ts f \<noteq> None"
  by (cases "subscript f ''properties''"; cases "subscript f ''geometry''")
     (auto simp: well_formed_def parse_feature_def split: sum.splits json.splits option.splits)

lemma map_filter_all:
  "\<forall>x\<in>set xs. f x \<noteq> None \<Longrightarrow> length (List.map_filter f xs) = length xs"
  by (induction xs) auto

lemma map_filter_append: "List.map_filter f (xs @ ys) = List.map_filter f xs @ List.map_filter f ys"
  by (simp add: List.map_filter_def)

lemma length_map_filter_le: "length (List.map_filter f xs) \<le> length xs"
  by (simp add: List.map_filter_def)


lemma set_map_filter_iff: "r \<in> set (List.map_filter g fs) \<longleftrightarrow> (\<exists>f\<in>set fs. g f = Some r)"
  by (induction fs) (auto split: option.splits)

lemma dict_get_Inr:
  "dict_get b k = Inr x \<Longrightarrow> x \<noteq> JNull \<Longrightarrow> \<exists>props. b = JObj props \<and> map_of props k = Some x"
  by (cases b) (auto split: option.splits)

lemma parse_feature_size:
  assumes "parse_feature sf ts f = Some r"
  shows "\<exists>props v. subscript f ''properties'' = Inr (JObj props) \<and>
           map_of props ''IncidentSize'' = Some v \<and> py_float sf v = Some (incident_size r)"
  using assms
  by (auto simp: parse_feature_def split: sum.splits option.splits if_splits
      dest: dict_get_Inr)

lemma int_to_float_nonneg: "0 \<le> n \<Longrightarrow> int_to_float n = Some x \<Longrightarrow> float_ge x 0"
  by (auto simp: int_to_float_def Let_def sgn_if split: if_splits)

lemma py_float_nonneg: "nonneg_number v \<Longrightarrow> py_float sf v = Some x \<Longrightarrow> float_ge x 0"
  by (cases v) (auto dest: int_to_float_nonneg)

lemma bit_length_5: "bit_length 5 \<le> 53" "bit_length 50 \<le> 53" "bit_length 0 \<le> 53"
  by code_simp+

lemma small_floats:
  "int_to_float (-5) = Some (Finite (-5))" "int_to_float 50 = Some (Finite 50)"
  by (simp_all add: int_to_float_def Let_def bit_length_5)

lemma small_ms: "utc_of_small_ms (JInt 1720094400000) = Some (Datetime 1720094400000000)"
  by (simp add: utc_of_small_ms_def)

text \<open>
  C5, as stated, fails. A feature whose \<open>IncidentSize\<close> is \<open>-5\<close> is parsed into a record
  whose size is \<open>-5.0\<close>: the parser tests that the field is there, not its sign.
\<close>

theorem negative_size_counterexample:
  "parse_fire_data str_float_unused utc_of_small_ms
     (collection [feature_with (JArr [JInt (-120), JInt 39])
        [(''FireDiscoveryDateTime'', JInt 1720094400000), (''IncidentSize'', JInt (-5))]]) =
   Inr [\<lparr> coordinates = [JInt (-120), JInt 39], detection_time = Datetime 1720094400000000,
          incident_size = Finite (-5) \<rparr>] \<and>
   \<not> float_ge (Finite (-5)) 0"
  by (simp add: parse_fire_data_def collection_def feature_with_def parse_feature_def
      small_floats small_ms)

lemma map_filter_positions:
  "List.map_filter f xs =
     map (\<lambda>i. the (f (xs ! i))) (filter (\<lambda>i. f (xs ! i) \<noteq> None) [0..<length xs])"
proof (induction xs rule: rev_induct)
  case Nil
  show ?case by simp
next
  case (snoc x xs)
  have a: "filter (\<lambda>i. f ((xs @ [x]) ! i) \<noteq> None) [0..<length xs] =
        filter (\<lambda>i. f (xs ! i) \<noteq> None) [0..<length xs]"
    by (rule filter_cong) (auto simp: nth_append)
  have b: "map (\<lambda>i. the (f ((xs @ [x]) ! i))) (filter (\<lambda>i. f (xs ! i) \<noteq> None) [0..<length xs]) =
        map (\<lambda>i. the (f (xs ! i))) (filter (\<lambda>i. f (xs ! i) \<noteq> None) [0..<length xs])"
    by (rule map_cong) (auto simp: nth_append)
  show ?case
    using a b snoc by (cases "f x") (simp_all add: map_filter_append)
qed

lemma bit_length_lower: "0 < n \<Longrightarrow> 2 ^ (bit_length n - 1) \<le> n"
proof (induction n rule: bit_length.induct)
  case (1 n)
  show ?case
  proof (cases "n div 2 = 0")
    case True
    with 1(2) have "n = 1" by presburger
    then show ?thesis by (simp add: bit_length.simps)
  next
    case False
    then have "2 ^ (bit_length (n div 2) - 1) \<le> n div 2" using 1 by simp
    moreover have "bit_length (n div 2) > 0" using False by (simp add: bit_length.simps)
    ultimately have "2 ^ bit_length (n div 2) \<le> 2 * (n div 2)"
      by (cases "bit_length (n div 2)") simp_all
    then have "2 ^ bit_length (n div 2) \<le> n" by presburger
    moreover have "bit_length n = Suc (bit_length (n div 2))"
      using 1(2) by (subst bit_length.simps) simp
    ultimately show ?thesis by simp
  qed
qed

lemma int_to_float_negative:
  assumes n: "n < 0" and s: "int_to_float n = Some x"
  shows "float_lt x 0"
proof (cases "bit_length (nat \<bar>n\<bar>) \<le> 53")
  case True
  with s n show ?thesis by (auto simp: int_to_float_def Let_def)
next
  case False
  define a where "a = nat \<bar>n\<bar>"
  define sh where "sh = bit_length a - 53"
  define q where "q = a div 2 ^ sh"
  define q' where "q' = (if 2 ^ sh < 2 * (a mod 2 ^ sh) \<or> (2 * (a mod 2 ^ sh) = 2 ^ sh \<and> odd q)
      then q + 1 else q)"
  have pos: "0 < a" using n by (simp add: a_def)
  have "(2::nat) ^ sh \<le> 2 ^ (bit_length a - 1)"
    unfolding sh_def by (rule power_increasing) simp_all
  also have "\<dots> \<le> a" using bit_length_lower[OF pos] .
  finally have "0 < q" by (simp add: q_def div_greater_zero_iff)
  then have "0 < q'" by (simp add: q'_def)
  then have m: "0 < q' * 2 ^ sh" by simp
  have "int_to_float n = (if (2::nat) ^ 1024 \<le> q' * 2 ^ sh then None
      else Some (Finite (of_int (sgn n * int (q' * 2 ^ sh)))))"
    using False unfolding int_to_float_def Let_def a_def[symmetric] sh_def[symmetric]
      q_def[symmetric] q'_def[symmetric] by (simp only: if_False)
  with s have "x = Finite (of_int (sgn n * int (q' * 2 ^ sh)))"
    by (cases "(2::nat) ^ 1024 \<le> q' * 2 ^ sh") (simp_all only: if_True if_False option.simps)
  moreover have "sgn n * int (q' * 2 ^ sh) < 0" using n m by (simp add: sgn_if)
  then have "(of_int (sgn n * int (q' * 2 ^ sh)) :: rat) < 0" by (simp only: of_int_less_0_iff)
  ultimately show ?thesis by (simp only: float_lt.simps)
qed

lemma py_float_negative: "negative_number v \<Longrightarrow> py_float sf v = Some x \<Longrightarrow> float_lt x 0"
  by (cases v) (auto dest: int_to_float_negative)

lemma good_feature_parse:
  "parse_feature str_float_unused utc_of_small_ms (good_feature 50) =
     Some \<lparr> coordinates = [JInt (-120), JInt 39], detection_time = Datetime 1720094400000000,
            incident_size = Finite 50 \<rparr>"
  "parse_feature str_float_unused utc_of_small_ms (good_feature (-5)) =
     Some \<lparr> coordinates = [JInt (-120), JInt 39], detection_time = Datetime 1720094400000000,
            incident_size = Finite (-5) \<rparr>"
  by (simp_all add: good_feature_def feature_with_def parse_feature_def small_floats small_ms)

text \<open>
  C5, amended: for every feature collection whose \<open>features\<close> is a list, the result has
  one record for each well formed feature, in their order, and the size of each record is
  \<open>float\<close> of the \<open>IncidentSize\<close> of the feature it comes from: not negative when that
  field is a number that is not negative, negative when it is a negative number.
\<close>

theorem record_size_of_its_feature:
  assumes "map_of kv ''features'' = Some (JArr fs)"
  shows "\<exists>rs. parse_fire_data sf ts (JObj kv) = Inr rs \<and>
           length rs = length (accepted_positions sf ts fs) \<and>
           (\<forall>k<length rs. \<exists>props v.
               subscript (fs ! (accepted_positions sf ts fs ! k)) ''properties'' = Inr (JObj props) \<and>
               map_of props ''IncidentSize'' = Some v \<and>
               py_float sf v = Some (incident_size (rs ! k)) \<and>
               (nonneg_number v \<longrightarrow> float_ge (incident_size (rs ! k)) 0) \<and>
               (negative_number v \<longrightarrow> float_lt (incident_size (rs ! k)) 0))"
proof -
  let ?pf = "parse_feature sf ts"
  let ?pos = "accepted_positions sf ts fs"
  let ?rs = "List.map_filter ?pf fs"
  have pos: "?pos = filter (\<lambda>i. ?pf (fs ! i) \<noteq> None) [0..<length fs]"
    by (simp add: accepted_positions_def well_formed_iff)
  have rs: "?rs = map (\<lambda>i. the (?pf (fs ! i))) ?pos"
    unfolding pos by (rule map_filter_positions)
  have len: "length ?rs = length ?pos" using rs by (metis length_map)
  have each: "\<exists>props v.
               subscript (fs ! (?pos ! k)) ''properties'' = Inr (JObj props) \<and>
               map_of props ''IncidentSize'' = Some v \<and>
               py_float sf v = Some (incident_size (?rs ! k)) \<and>
               (nonneg_number v \<longrightarrow> float_ge (incident_size (?rs ! k)) 0) \<and>
               (negative_number v \<longrightarrow> float_lt (incident_size (?rs ! k)) 0)"
    if k: "k < length ?rs" for k
  proof -
    have kp: "k < length ?pos" using k len by simp
    then have "?pos ! k \<in> set ?pos" by (rule nth_mem)
    then have "?pf (fs ! (?pos ! k)) \<noteq> None" unfolding pos by simp
    moreover have "?rs ! k = the (?pf (fs ! (?pos ! k)))"
      using kp by (subst rs) (rule nth_map)
    ultimately have "?pf (fs ! (?pos ! k)) = Some (?rs ! k)" by simp
    from parse_feature_size[OF this] obtain props v where
      pv: "subscript (fs ! (?pos ! k)) ''properties'' = Inr (JObj props)"
          "map_of props ''IncidentSize'' = Some v" "py_float sf v = Some (incident_size (?rs ! k))"
      by blast
    have "nonneg_number v \<longrightarrow> float_ge (incident_size (?rs ! k)) 0"
      using pv(3) py_float_nonneg by blast
    moreover have "negative_number v \<longrightarrow> float_lt (incident_size (?rs ! k)) 0"
      using pv(3) py_float_negative by blast
    ultimately show ?thesis using pv by blast
  qed
  have "parse_fire_data sf ts (JObj kv) = Inr ?rs" using assms by (rule parse_collection)
  with len each show ?thesis by blast
qed

text \<open>C5, amended, on two features of sizes 50 and -5.\<close>

theorem record_size_of_its_feature_witness:
  "map_of [(''type'', JStr ''FeatureCollection''),
           (''features'', JArr [good_feature 50, good_feature (-5)])] ''features'' =
     Some (JArr [good_feature 50, good_feature (-5)]) \<and>
   accepted_positions str_float_unused utc_of_small_ms [good_feature 50, good_feature (-5)] =
     [0, 1] \<and>
   nonneg_number (JInt 50) \<and> negative_number (JInt (-5)) \<and>
   parse_fire_data str_float_unused utc_of_small_ms
     (collection [good_feature 50, good_feature (-5)]) =
   Inr [\<lparr> coordinates = [JInt (-120), JInt 39], detection_time = Datetime 1720094400000000,
          incident_size = Finite 50 \<rparr>,
        \<lparr> coordinates = [JInt (-120), JInt 39], detection_time = Datetime 1720094400000000,
          incident_size = Finite (-5) \<rparr>] \<and>
   float_ge (Finite 50) 0 \<and> float_lt (Finite (-5)) 0 \<and>
   (\<exists>rs. parse_fire_data str_float_unused utc_of_small_ms
       (collection [good_feature 50, good_feature (-5)]) = Inr rs \<and>
     length rs = length (accepted_positions str_float_unused utc_of_small_ms
       [good_feature 50, good_feature (-5)]))"
proof -
  let ?fs = "[good_feature 50, good_feature (-5)]"
  let ?kv = "[(''type'', JStr ''FeatureCollection''), (''features'', JArr ?fs)]"
  have m: "map_of ?kv ''features'' = Some (JArr ?fs)" by simp
  have w: "well_formed str_float_unused utc_of_small_ms (good_feature 50)"
     "well_formed str_float_unused utc_of_small_ms (good_feature (-5))"
    by (simp_all add: well_formed_iff good_feature_parse)
  have u: "[0..<length ?fs] = [0, 1]" by (simp add: upt_rec)
  have p: "accepted_positions str_float_unused utc_of_small_ms ?fs = [0, 1]"
    unfolding accepted_positions_def u using w by simp
  have e: "parse_fire_data str_float_unused utc_of_small_ms (collection ?fs) =
   Inr [\<lparr> coordinates = [JInt (-120), JInt 39], detection_time = Datetime 1720094400000000,
          incident_size = Finite 50 \<rparr>,
        \<lparr> coordinates = [JInt (-120), JInt 39], detection_time = Datetime 1720094400000000,
          incident_size = Finite (-5) \<rparr>]"
    by (simp add: parse_fire_data_def collection_def good_feature_parse)
  have "\<exists>rs. parse_fire_data str_float_unused utc_of_small_ms (JObj ?kv) = Inr rs \<and>
     length rs = length (accepted_positions str_float_unused utc_of_small_ms ?fs)"
    using record_size_of_its_feature[OF m, of str_float_unused utc_of_small_ms] by blast
  then have "\<exists>rs. parse_fire_data str_float_unused utc_of_small_ms (collection ?fs) = Inr rs \<and>
     length rs = length (accepted_positions str_float_unused utc_of_small_ms ?fs)"
    by (simp only: collection_def)
  with m p e show ?thesis by simp
qed

text \<open>
  C6: for every feature collection whose \<open>features\<close> is a list the parser returns, with
  at most one record for each feature. A feature that lacks the key of the discovery time
  or the key of the size is skipped: the result is the one for the list without it. When
  the other features are well formed, each of them gives a record; so three features of
  which one lacks the discovery time give exactly two records.
\<close>

theorem missing_field_skipped:
  "(map_of kv ''features'' = Some (JArr fs) \<longrightarrow>
      (\<exists>rs. parse_fire_data sf ts (JObj kv) = Inr rs \<and> length rs \<le> length fs)) \<and>
   (map_of kv ''features'' = Some (JArr (xs @ f # ys)) \<and>
    (missing ''FireDiscoveryDateTime'' f \<or> missing ''IncidentSize'' f) \<longrightarrow>
      parse_fire_data sf ts (JObj kv) =
        parse_fire_data sf ts (JObj [(''features'', JArr (xs @ ys))]) \<and>
      ((\<forall>g\<in>set (xs @ ys). well_formed sf ts g) \<longrightarrow>
         (\<exists>rs. parse_fire_data sf ts (JObj kv) = Inr rs \<and> length rs = length xs + length ys)) \<and>
      (length (xs @ f # ys) = 3 \<and> (\<forall>g\<in>set (xs @ ys). well_formed sf ts g) \<longrightarrow>
         (\<exists>rs. parse_fire_data sf ts (JObj kv) = Inr rs \<and> length rs = 2)))"
proof (intro conjI impI)
  assume "map_of kv ''features'' = Some (JArr fs)"
  then show "\<exists>rs. parse_fire_data sf ts (JObj kv) = Inr rs \<and> length rs \<le> length fs"
    by (simp add: parse_collection length_map_filter_le)
next
  assume a: "map_of kv ''features'' = Some (JArr (xs @ f # ys)) \<and>
    (missing ''FireDiscoveryDateTime'' f \<or> missing ''IncidentSize'' f)"
  then have n: "parse_feature sf ts f = None" using missing_skipped by blast
  have p: "parse_fire_data sf ts (JObj kv) =
      Inr (List.map_filter (parse_feature sf ts) (xs @ ys))"
    using a n by (simp add: parse_collection map_filter_append)
  have q: "parse_fire_data sf ts (JObj [(''features'', JArr (xs @ ys))]) =
      Inr (List.map_filter (parse_feature sf ts) (xs @ ys))"
    by (rule parse_collection) simp
  show "parse_fire_data sf ts (JObj kv) =
      parse_fire_data sf ts (JObj [(''features'', JArr (xs @ ys))])"
    using p q by simp
  have len: "length (List.map_filter (parse_feature sf ts) (xs @ ys)) = length xs + length ys"
    if "\<forall>g\<in>set (xs @ ys). well_formed sf ts g"
    using map_filter_all[of "xs @ ys" "parse_feature sf ts"] that
    by (simp add: well_formed_iff)
  {
    assume "\<forall>g\<in>set (xs @ ys). well_formed sf ts g"
    then show "\<exists>rs. parse_fire_data sf ts (JObj kv) = Inr rs \<and> length rs = length xs + length ys"
      using p len by simp
  }
  {
    assume "length (xs @ f # ys) = 3 \<and> (\<forall>g\<in>set (xs @ ys). well_formed sf ts g)"
    then show "\<exists>rs. parse_fire_data sf ts (JObj kv) = Inr rs \<and> length rs = 2"
      using p len by simp
  }
qed


text \<open>C6 on three features, the second without a discovery time.\<close>

theorem missing_field_skipped_witness:
  "missing ''FireDiscoveryDateTime'' no_timestamp_feature \<and>
   well_formed str_float_unused utc_of_small_ms (good_feature 50) \<and>
   length ([good_feature 50] @ no_timestamp_feature # [good_feature 50]) = 3 \<and>
   parse_fire_data str_float_unused utc_of_small_ms
     (collection [good_feature 50, no_timestamp_feature, good_feature 50]) =
   Inr [\<lparr> coordinates = [JInt (-120), JInt 39], detection_time = Datetime 1720094400000000,
          incident_size = Finite 50 \<rparr>,
        \<lparr> coordinates = [JInt (-120), JInt 39], detection_time = Datetime 1720094400000000,
          incident_size = Finite 50 \<rparr>] \<and>
   (\<exists>rs. parse_fire_data str_float_unused utc_of_small_ms
       (collection [good_feature 50, no_timestamp_feature, good_feature 50]) = Inr rs \<and>
     length rs = 2)"
proof -
  let ?kv = "[(''type'', JStr ''FeatureCollection''),
      (''features'', JArr ([good_feature 50] @ no_timestamp_feature # [good_feature 50]))]"
  have m: "missing ''FireDiscoveryDateTime'' no_timestamp_feature"
    by (simp add: missing_def no_timestamp_feature_def feature_with_def)
  have w: "well_formed str_float_unused utc_of_small_ms (good_feature 50)"
    by (simp add: well_formed_iff good_feature_parse)
  have n: "parse_feature str_float_unused utc_of_small_ms no_timestamp_feature = None"
    by (simp add: no_timestamp_feature_def feature_with_def parse_feature_def)
  have e: "parse_fire_data str_float_unused utc_of_small_ms
     (collection [good_feature 50, no_timestamp_feature, good_feature 50]) =
   Inr [\<lparr> coordinates = [JInt (-120), JInt 39], detection_time = Datetime 1720094400000000,
          incident_size = Finite 50 \<rparr>,
        \<lparr> coordinates = [JInt (-120), JInt 39], detection_time = Datetime 1720094400000000,
          incident_size = Finite 50 \<rparr>]"
    by (simp add: parse_fire_data_def collection_def good_feature_parse n)
  have k: "map_of ?kv ''features'' =
      Some (JArr ([good_feature 50] @ no_timestamp_feature # [good_feature 50]))" by simp
  have l3: "length ([good_feature 50] @ no_timestamp_feature # [good_feature 50]) = 3" by simp
  have wf: "\<forall>g\<in>set ([good_feature 50] @ [good_feature 50]).
      well_formed str_float_unused utc_of_small_ms g" using w by simp
  have "\<exists>rs. parse_fire_data str_float_unused utc_of_small_ms (JObj ?kv) = Inr rs \<and> length rs = 2"
    using missing_field_skipped[of ?kv "[]" str_float_unused utc_of_small_ms "[good_feature 50]"
        no_timestamp_feature "[good_feature 50]"] k m l3 wf
    by blast
  then have "\<exists>rs. parse_fire_data str_float_unused utc_of_small_ms
       (collection [good_feature 50, no_timestamp_feature, good_feature 50]) = Inr rs \<and>
     length rs = 2"
    by (simp add: collection_def)
  with m w e show ?thesis by simp
qed

text \<open>
  C10, as stated, fails. A feature whose \<open>coordinates\<close> entry is the number 5, with a
  discovery time and a size that are there and convert, gives no record: \<open>tuple(coords)\<close>
  raises for a value that cannot be iterated, and the feature is skipped.
\<close>

theorem coordinate_shape_counterexample:
  "subscript (feature_with (JInt 5)
        [(''FireDiscoveryDateTime'', JInt 1720094400000), (''IncidentSize'', JInt 50)])
     ''geometry'' = Inr (JObj [(''type'', JStr ''Point''), (''coordinates'', JInt 5)]) \<and>
   utc_of_small_ms (JInt 1720094400000) = Some (Datetime 1720094400000000) \<and>
   py_float str_float_unused (JInt 50) = Some (Finite 50) \<and>
   parse_fire_data str_float_unused utc_of_small_ms
     (collection [feature_with (JInt 5)
        [(''FireDiscoveryDateTime'', JInt 1720094400000), (''IncidentSize'', JInt 50)]]) = Inr []"
  by (simp add: parse_fire_data_def collection_def feature_with_def parse_feature_def
      small_floats small_ms)

text \<open>
  C10, amended: the parser does not look at the shape of a \<open>coordinates\<close> entry that is
  a list. A feature whose \<open>coordinates\<close> is a list of any content (a list of polygon rings
  as well as a pair), with a discovery time and a size that are there and convert, gives
  a record carrying the items of that list unchanged, at the place of the feature. A
  feature whose \<open>coordinates\<close> cannot be iterated is skipped.
\<close>

theorem coordinates_unchanged:
  assumes "map_of kv ''features'' = Some (JArr (xs @ f # ys))"
      and "subscript f ''geometry'' = Inr g"
      and "subscript f ''properties'' = Inr (JObj props)"
      and "map_of props ''FireDiscoveryDateTime'' = Some t" "t \<noteq> JNull" "ts t = Some dt"
      and "map_of props ''IncidentSize'' = Some v" "v \<noteq> JNull" "py_float sf v = Some x"
  shows "(subscript g ''coordinates'' = Inr (JArr cs) \<longrightarrow>
           (\<exists>rs1 rs2.
              parse_fire_data sf ts (JObj [(''features'', JArr xs)]) = Inr rs1 \<and>
              parse_fire_data sf ts (JObj [(''features'', JArr ys)]) = Inr rs2 \<and>
              parse_fire_data sf ts (JObj kv) =
                Inr (rs1 @ \<lparr> coordinates = cs, detection_time = dt, incident_size = x \<rparr> # rs2))) \<and>
         (subscript g ''coordinates'' = Inr c \<and> iter c = Inl e \<longrightarrow>
           parse_fire_data sf ts (JObj kv) =
             parse_fire_data sf ts (JObj [(''features'', JArr (xs @ ys))]))"
proof (intro conjI impI)
  have px: "parse_fire_data sf ts (JObj [(''features'', JArr zs)]) =
      Inr (List.map_filter (parse_feature sf ts) zs)" for zs
    by (rule parse_collection) simp
  have pk: "parse_fire_data sf ts (JObj kv) =
      Inr (List.map_filter (parse_feature sf ts) (xs @ f # ys))"
    using assms(1) by (rule parse_collection)
  {
    assume "subscript g ''coordinates'' = Inr (JArr cs)"
    then have "parse_feature sf ts f =
        Some \<lparr> coordinates = cs, detection_time = dt, incident_size = x \<rparr>"
      using assms by (simp add: parse_feature_def)
    then show "\<exists>rs1 rs2.
              parse_fire_data sf ts (JObj [(''features'', JArr xs)]) = Inr rs1 \<and>
              parse_fire_data sf ts (JObj [(''features'', JArr ys)]) = Inr rs2 \<and>
              parse_fire_data sf ts (JObj kv) =
                Inr (rs1 @ \<lparr> coordinates = cs, detection_time = dt, incident_size = x \<rparr> # rs2)"
      using px pk by (simp add: map_filter_append)
  }
  {
    assume "subscript g ''coordinates'' = Inr c \<and> iter c = Inl e"
    then have "parse_feature sf ts f = None"
      using assms by (simp add: parse_feature_def)
    then show "parse_fire_data sf ts (JObj kv) =
             parse_fire_data sf ts (JObj [(''features'', JArr (xs @ ys))])"
      using px pk by (simp add: map_filter_append)
  }
qed

text \<open>C10, amended, on a list of one polygon ring, and on the number 5.\<close>

theorem coordinates_unchanged_witness:
  "subscript (feature_with rings
        [(''FireDiscoveryDateTime'', JInt 1720094400000), (''IncidentSize'', JInt 50)])
     ''geometry'' = Inr (JObj [(''type'', JStr ''Point''), (''coordinates'', rings)]) \<and>
   utc_of_small_ms (JInt 1720094400000) = Some (Datetime 1720094400000000) \<and>
   py_float str_float_unused (JInt 50) = Some (Finite 50) \<and>
   parse_fire_data str_float_unused utc_of_small_ms
     (JObj [(''features'', JArr [feature_with rings
        [(''FireDiscoveryDateTime'', JInt 1720094400000), (''IncidentSize'', JInt 50)]])]) =
   Inr [\<lparr> coordinates = [JArr [JArr [JInt 0, JInt 0], JArr [JInt 1, JInt 0], JArr [JInt 1, JInt 1],
                       JArr [JInt 0, JInt 0]]],
          detection_time = Datetime 1720094400000000, incident_size = Finite 50 \<rparr>] \<and>
   iter (JInt 5) = Inl TypeError \<and>
   parse_fire_data str_float_unused utc_of_small_ms
     (JObj [(''features'', JArr [feature_with (JInt 5)
        [(''FireDiscoveryDateTime'', JInt 1720094400000), (''IncidentSize'', JInt 50)]])]) =
   Inr []"
proof -
  let ?props = "[(''FireDiscoveryDateTime'', JInt 1720094400000), (''IncidentSize'', JInt 50)]"
  let ?f = "feature_with rings ?props"
  let ?g = "JObj [(''type'', JStr ''Point''), (''coordinates'', rings)]"
  let ?f5 = "feature_with (JInt 5) ?props"
  let ?g5 = "JObj [(''type'', JStr ''Point''), (''coordinates'', JInt 5)]"
  have empty: "parse_fire_data str_float_unused utc_of_small_ms (JObj [(''features'', JArr [])]) =
      Inr []" by (simp add: parse_fire_data_def)
  have g: "subscript ?f ''geometry'' = Inr ?g" by (simp add: feature_with_def)
  have t: "utc_of_small_ms (JInt 1720094400000) = Some (Datetime 1720094400000000)"
    by (rule small_ms)
  have v: "py_float str_float_unused (JInt 50) = Some (Finite 50)" by (simp add: small_floats)
  have "parse_fire_data str_float_unused utc_of_small_ms (JObj [(''features'', JArr [?f])]) =
      Inr [\<lparr> coordinates = [JArr [JArr [JInt 0, JInt 0], JArr [JInt 1, JInt 0],
                 JArr [JInt 1, JInt 1], JArr [JInt 0, JInt 0]]],
          detection_time = Datetime 1720094400000000, incident_size = Finite 50 \<rparr>]"
    using coordinates_unchanged[of "[(''features'', JArr [?f])]" "[]" ?f "[]" ?g ?props
        "JInt 1720094400000" utc_of_small_ms "Datetime 1720094400000000" "JInt 50"
        str_float_unused "Finite 50"
        "[JArr [JArr [JInt 0, JInt 0], JArr [JInt 1, JInt 0], JArr [JInt 1, JInt 1],
                       JArr [JInt 0, JInt 0]]]" "JInt 5" TypeError] t v empty
    by (simp add: feature_with_def rings_def)
  moreover have "parse_fire_data str_float_unused utc_of_small_ms
        (JObj [(''features'', JArr [?f5])]) = Inr []"
    using coordinates_unchanged[of "[(''features'', JArr [?f5])]" "[]" ?f5 "[]" ?g5 ?props
        "JInt 1720094400000" utc_of_small_ms "Datetime 1720094400000000" "JInt 50"
        str_float_unused "Finite 50" "[]" "JInt 5" TypeError] t v empty
    by (simp add: feature_with_def)
  ultimately show ?thesis using g t v by simp
qed

end
